theory Spec2Isabelle
  imports Complex_Main
begin

section \<open>Python values, exceptions and strings\<close>

text \<open>
  The exceptions the program can meet. A computation that may raise returns
  \<open>exn + 'a\<close>, with \<open>Inl\<close> for the exception.
\<close>

datatype exn = ValueError | AttributeError | TypeError | KeyError | IndexError | ZeroDivisionError

definition and_then :: "exn + 'a \<Rightarrow> ('a \<Rightarrow> exn + 'b) \<Rightarrow> exn + 'b" where
  "and_then m f = (case m of Inl e \<Rightarrow> Inl e | Inr v \<Rightarrow> f v)"

text \<open>
  \<open>str.split(sep)\<close> with a one-character separator: the string is cut at every
  occurrence of the separator, so the result has one more element than there are
  separators.
\<close>

fun split_acc :: "char \<Rightarrow> string \<Rightarrow> string \<Rightarrow> string list" where
  "split_acc sep cur [] = [rev cur]"
| "split_acc sep cur (x # xs) =
     (if x = sep then rev cur # split_acc sep [] xs else split_acc sep (x # cur) xs)"

definition str_split :: "char \<Rightarrow> string \<Rightarrow> string list" where
  "str_split sep s = split_acc sep [] s"

text \<open>Unpacking into exactly two names: \<open>a, b = xs\<close> raises ValueError otherwise.\<close>

fun unpack2 :: "'a list \<Rightarrow> exn + ('a \<times> 'a)" where
  "unpack2 [a, b] = Inr (a, b)"
| "unpack2 _ = Inl ValueError"

text \<open>
  \<open>int(s)\<close> for a string, base ten, as CPython converts it. A character stands for a
  code point below 256. White space is skipped at both ends: the characters the C
  locale takes for space (code points 9 to 13 and 32) and the two further spaces of
  that range, 0x85 and 0xA0, which the conversion first turns into blanks. The
  separators 0x1C to 0x1F are not skipped, although \<open>str.strip\<close> removes them. One
  sign may follow, then decimal digits, where single underscores may stand between
  digits. The digits are at most 4300, the default of CPython's limit on the
  conversion of strings (since 3.11). Anything else raises ValueError.
\<close>

definition is_space :: "char \<Rightarrow> bool" where
  "is_space c = ((of_char c :: nat) \<in> {9, 10, 11, 12, 13, 32, 133, 160})"

definition is_digit :: "char \<Rightarrow> bool" where
  "is_digit c = (48 \<le> (of_char c :: nat) \<and> (of_char c :: nat) \<le> 57)"

definition digit_val :: "char \<Rightarrow> nat" where
  "digit_val c = of_char c - 48"

definition strip :: "string \<Rightarrow> string" where
  "strip s = rev (dropWhile is_space (rev (dropWhile is_space s)))"

fun digitpart :: "string \<Rightarrow> bool" where
  "digitpart [] = False"
| "digitpart [c] = is_digit c"
| "digitpart (c # d # r) =
     (is_digit c \<and> (if d = CHR ''_'' then digitpart r else digitpart (d # r)))"

definition decimal :: "string \<Rightarrow> nat" where
  "decimal s = foldl (\<lambda>a c. 10 * a + digit_val c) 0 (filter is_digit s)"

definition max_str_digits :: nat where
  "max_str_digits = 4300"

definition py_int :: "string \<Rightarrow> exn + int" where
  "py_int s =
     (let t = strip s;
          signed = (t \<noteq> [] \<and> (hd t = CHR ''-'' \<or> hd t = CHR ''+''));
          body = (if signed then tl t else t)
      in if digitpart body \<and> length (filter is_digit body) \<le> max_str_digits
         then Inr ((if signed \<and> hd t = CHR ''-'' then - 1 else 1) * int (decimal body))
         else Inl ValueError)"

section \<open>The time parser\<close>

text \<open>
  A cell of the time column as pandas hands it to \<open>convert_time_to_seconds\<close>: a
  string, an integer (the row index), a float or the float NaN of an empty cell.
  Only a string has a \<open>split\<close> method; on the others the attribute access raises
  AttributeError.
\<close>

datatype pyval = PyStr string | PyInt int | PyFloat real | PyNaN

text \<open>The body of the \<open>try\<close> block.\<close>

definition convert_time_to_seconds_try :: "pyval \<Rightarrow> exn + int" where
  "convert_time_to_seconds_try time_str =
     (case time_str of
        PyStr s \<Rightarrow>
          and_then (unpack2 (str_split CHR '':'' s)) (\<lambda>(minutes, seconds_sample).
          and_then (unpack2 (str_split CHR ''.'' seconds_sample)) (\<lambda>(seconds, _).
          and_then (py_int minutes) (\<lambda>m.
          and_then (py_int seconds) (\<lambda>s.
          Inr (m * 60 + s)))))
      | _ \<Rightarrow> Inl AttributeError)"

text \<open>
  The handler catches ValueError and AttributeError and returns \<open>None\<close>; any other
  exception would leave the function.
\<close>

definition convert_time_to_seconds :: "pyval \<Rightarrow> exn + int option" where
  "convert_time_to_seconds time_str =
     (case convert_time_to_seconds_try time_str of
        Inr total_seconds \<Rightarrow> Inr (Some total_seconds)
      | Inl e \<Rightarrow> if e = ValueError \<or> e = AttributeError then Inr None else Inl e)"

section \<open>The classifiers and the fusion rule\<close>

text \<open>
  Labels are the program's strings. The features are floats in the program and reals
  here; every threshold of the PPG rules is an integer, so the comparisons agree.
\<close>

definition classify_ppg_emotion :: "real \<Rightarrow> real \<Rightarrow> string" where
  "classify_ppg_emotion ppg_sdnn ppg_rmssd =
     (if ppg_sdnn > 100 \<and> ppg_rmssd > 50 then ''Happy''
      else if ppg_sdnn < 50 \<and> ppg_rmssd < 30 then ''Sad''
      else if ppg_sdnn > 100 \<and> ppg_rmssd < 30 then ''Angry''
      else if 50 \<le> ppg_sdnn \<and> ppg_sdnn \<le> 100 \<and> 30 \<le> ppg_rmssd \<and> ppg_rmssd \<le> 50 then ''Neutral''
      else ''Neutral/Calm'')"

definition classify_gsr_emotion :: "real \<Rightarrow> real \<Rightarrow> string" where
  "classify_gsr_emotion scr_amplitude scr_frequency =
     (if scr_amplitude > 0.5 \<and> scr_frequency > 0.05 then ''Happy/Angry''
      else if scr_amplitude < 0.3 \<and> scr_frequency < 0.02 then ''Sad''
      else if 0.3 \<le> scr_amplitude \<and> scr_amplitude \<le> 0.5 \<and>
              0.02 \<le> scr_frequency \<and> scr_frequency \<le> 0.05 then ''Neutral''
      else ''Neutral/Calm'')"

definition combine_emotions :: "string \<Rightarrow> string \<Rightarrow> string" where
  "combine_emotions ppg_emotion gsr_emotion =
     (if gsr_emotion = ''Happy/Angry'' then gsr_emotion else ppg_emotion)"

section \<open>Numeric helpers of numpy\<close>

text \<open>
  A float of a signal column is a real or NaN (\<open>None\<close>). \<open>np.diff\<close> subtracts
  neighbours; a difference with a NaN operand is NaN.
\<close>

fun np_diff :: "real option list \<Rightarrow> real option list" where
  "np_diff (x # y # r) =
     (case (x, y) of (Some a, Some b) \<Rightarrow> Some (b - a) | _ \<Rightarrow> None) # np_diff (y # r)"
| "np_diff _ = []"

text \<open>\<open>np.where(d > 0)[0]\<close>: the positions whose value is greater than zero; a comparison with NaN is false.\<close>

definition where_positive :: "real option list \<Rightarrow> nat list" where
  "where_positive d =
     filter (\<lambda>i. case d ! i of Some v \<Rightarrow> v > 0 | None \<Rightarrow> False) [0..<length d]"

text \<open>\<open>np.diff\<close> on an array of integers.\<close>

fun diff_int :: "int list \<Rightarrow> int list" where
  "diff_int (x # y # r) = (y - x) # diff_int (y # r)"
| "diff_int _ = []"

definition mean :: "real list \<Rightarrow> real" where
  "mean xs = sum_list xs / real (length xs)"

definition np_std :: "real list \<Rightarrow> real" where
  "np_std xs = sqrt (mean (map (\<lambda>x. (x - mean xs)\<^sup>2) xs))"

definition truediv :: "real \<Rightarrow> real \<Rightarrow> exn + real" where
  "truediv a b = (if b = 0 then Inl ZeroDivisionError else Inr (a / b))"

fun traverse :: "('a \<Rightarrow> exn + 'b) \<Rightarrow> 'a list \<Rightarrow> exn + 'b list" where
  "traverse f [] = Inr []"
| "traverse f (x # xs) =
     and_then (f x) (\<lambda>y. and_then (traverse f xs) (\<lambda>ys. Inr (y # ys)))"

section \<open>The GSR analyzer\<close>

text \<open>
  The GSR segment is a pandas Series: values with the row labels they had in the
  table. \<open>find_peaks\<close> is scipy's; the analyzer takes it as a parameter: from the
  values, the least height and the least distance to the positions of the peaks
  (or an exception). The height 0.1 is the real 1/10, and the distance
  \<open>int(1.0 * sampling_rate)\<close> is the sampling rate itself.
\<close>

type_synonym series = "(nat \<times> real) list"

type_synonym peak_finder = "real list \<Rightarrow> real \<Rightarrow> int \<Rightarrow> exn + nat list"

text \<open>
  \<open>gsr_data[scr_peaks]\<close> on a Series whose index holds integers selects by label, not
  by position: every key has to be a label of the Series, or KeyError is raised.
\<close>

definition series_getitem :: "series \<Rightarrow> nat list \<Rightarrow> exn + real list" where
  "series_getitem ser keys =
     traverse (\<lambda>k. case map_of ser k of None \<Rightarrow> Inl KeyError | Some v \<Rightarrow> Inr v) keys"

definition analyze_gsr :: "peak_finder \<Rightarrow> series \<Rightarrow> int \<Rightarrow> exn + (real \<times> real)" where
  "analyze_gsr find_peaks gsr_data sampling_rate =
     (if length gsr_data = 0 then Inr (0, 0)
      else
        and_then (find_peaks (map snd gsr_data) 0.1 sampling_rate) (\<lambda>scr_peaks.
        and_then (series_getitem gsr_data scr_peaks) (\<lambda>at_peaks.
        let scr_amplitudes = map (\<lambda>v. v - mean (map snd gsr_data)) at_peaks;
            scr_amplitude = (if length scr_amplitudes > 0 then mean scr_amplitudes else 0)
        in
        and_then (truediv (real (length gsr_data)) (real_of_int sampling_rate)) (\<lambda>duration.
        and_then (truediv (real (length scr_peaks)) duration) (\<lambda>scr_frequency.
        Inr (scr_amplitude, scr_frequency))))))"

text \<open>
  Modelled from the spec: \<open>find_peaks\<close> is scipy's and not part of the sources. Section
  4.2 describes it: local maxima, of height at least the threshold, and of two
  candidates closer than the distance only the higher one is kept. The local maxima
  are found as scipy does, a plateau counting as one peak at its middle; the candidates
  are visited from the highest to the lowest, and among equal heights the later first.
\<close>

function plateau_end :: "real list \<Rightarrow> nat \<Rightarrow> nat \<Rightarrow> nat" where
  "plateau_end x i i_ahead =
     (if i_ahead < length x - 1 \<and> x ! i_ahead = x ! i
      then plateau_end x i (Suc i_ahead) else i_ahead)"
  by pat_completeness auto
termination
  by (relation "measure (\<lambda>(x, i, i_ahead). length x - 1 - i_ahead)") auto

declare plateau_end.simps [simp del]

lemma plateau_end_ge: "i_ahead \<le> plateau_end x i i_ahead"
proof (induction x i i_ahead rule: plateau_end.induct)
  case (1 x i i_ahead)
  show ?case
  proof (cases "i_ahead < length x - 1 \<and> x ! i_ahead = x ! i")
    case True
    with 1 have "Suc i_ahead \<le> plateau_end x i (Suc i_ahead)" by simp
    with True show ?thesis by (subst plateau_end.simps) auto
  next
    case False
    then show ?thesis by (subst plateau_end.simps) auto
  qed
qed

function local_maxima_from :: "real list \<Rightarrow> nat \<Rightarrow> nat list" where
  "local_maxima_from x i =
     (if i < length x - 1 then
        (if x ! (i - 1) < x ! i \<and> x ! (plateau_end x i (i + 1)) < x ! i
         then ((i + (plateau_end x i (i + 1) - 1)) div 2)
                # local_maxima_from x (plateau_end x i (i + 1) + 1)
         else local_maxima_from x (i + 1))
      else [])"
  by pat_completeness auto
termination
proof (relation "measure (\<lambda>(x, i). length x - 1 - i)")
  show "wf (measure (\<lambda>(x, i). length x - 1 - i))" by simp
next
  fix x :: "real list" and i :: nat
  assume "i < length x - 1"
  moreover have "i + 1 \<le> plateau_end x i (i + 1)" by (rule plateau_end_ge)
  ultimately show "((x, plateau_end x i (i + 1) + 1), (x, i)) \<in> measure (\<lambda>(x, i). length x - 1 - i)"
    by simp
next
  fix x :: "real list" and i :: nat
  assume "i < length x - 1"
  then show "((x, i + 1), (x, i)) \<in> measure (\<lambda>(x, i). length x - 1 - i)" by simp
qed

declare local_maxima_from.simps [simp del]

definition suppress :: "nat list \<Rightarrow> nat \<Rightarrow> bool list \<Rightarrow> nat \<Rightarrow> bool list" where
  "suppress peaks distance keep j =
     (if keep ! j
      then map (\<lambda>k. if k = j then True
                     else keep ! k \<and> distance \<le> (if k < j then peaks ! j - peaks ! k
                                                    else peaks ! k - peaks ! j))
             [0..<length peaks]
      else keep)"

definition select_by_peak_distance :: "real list \<Rightarrow> nat list \<Rightarrow> nat \<Rightarrow> nat list" where
  "select_by_peak_distance x peaks distance =
     (let by_priority = rev (sort_key (\<lambda>j. x ! (peaks ! j)) [0..<length peaks]);
          keep = foldl (suppress peaks distance) (replicate (length peaks) True) by_priority
      in map (\<lambda>j. peaks ! j) (filter (\<lambda>j. keep ! j) [0..<length peaks]))"

definition scipy_find_peaks :: peak_finder where
  "scipy_find_peaks x height distance =
     (if distance < 1 then Inl ValueError
      else Inr (select_by_peak_distance x
                  (filter (\<lambda>p. height \<le> x ! p) (local_maxima_from x 1)) (nat distance)))"

section \<open>The table and the windows\<close>

text \<open>
  The uploaded table as \<open>read_csv\<close> returns it: which of the three columns it has, and
  its rows. A column the table does not have is ignored in the rows. The signal
  columns hold floats, NaN for an empty cell.
\<close>

record row =
  time_cell :: pyval
  ppg_cell :: "real option"
  gsr_cell :: "real option"

record table =
  has_time :: bool
  has_ppg :: bool
  has_gsr :: bool
  rows :: "row list"

text \<open>A row of the frame after the time column is parsed, under its label (its row number in the table).\<close>

record sample =
  label :: nat
  time_seconds :: int
  ppg_signal :: "real option"
  gsr_signal :: "real option"

text \<open>The time column: the table's own, or the index when it has none.\<close>

definition time_column :: "table \<Rightarrow> pyval list" where
  "time_column t =
     (if has_time t then map time_cell (rows t)
      else map (\<lambda>i. PyInt (int i)) [0..<length (rows t)])"

text \<open>
  \<open>apply(convert_time_to_seconds)\<close>, \<open>dropna(subset=['time'])\<close>, and the two signal
  columns, all NaN when the table has none.
\<close>

definition keep_timed :: "table \<Rightarrow> nat \<times> int option \<times> row \<Rightarrow> sample option" where
  "keep_timed t = (\<lambda>(i, tm, r).
     case tm of None \<Rightarrow> None
     | Some s \<Rightarrow> Some \<lparr>label = i, time_seconds = s,
                       ppg_signal = (if has_ppg t then ppg_cell r else None),
                       gsr_signal = (if has_gsr t then gsr_cell r else None)\<rparr>)"

definition load_frame :: "table \<Rightarrow> exn + sample list" where
  "load_frame t =
     and_then (traverse convert_time_to_seconds (time_column t)) (\<lambda>times.
     Inr (List.map_filter (keep_timed t)
            (zip [0..<length (rows t)] (zip times (rows t)))))"

text \<open>
  The decoded \<open>chunks_json\<close>. A JSON object is the list of its members; the decoder
  leaves no key twice.
\<close>

datatype json = JNull | JBool bool | JNum real | JStr string
  | JArr "json list" | JObj "(string \<times> json) list"

text \<open>\<open>x[key]\<close> with a string key, \<open>x[i]\<close> with an integer, and iteration, as Python does them on a decoded value.\<close>

fun getitem_key :: "json \<Rightarrow> string \<Rightarrow> exn + json" where
  "getitem_key (JObj members) k =
     (case map_of members k of None \<Rightarrow> Inl KeyError | Some v \<Rightarrow> Inr v)"
| "getitem_key _ k = Inl TypeError"

fun getitem_idx :: "json \<Rightarrow> nat \<Rightarrow> exn + json" where
  "getitem_idx (JArr xs) i = (if i < length xs then Inr (xs ! i) else Inl IndexError)"
| "getitem_idx (JStr s) i = (if i < length s then Inr (JStr [s ! i]) else Inl IndexError)"
| "getitem_idx (JObj members) i = Inl KeyError"
| "getitem_idx _ i = Inl TypeError"

fun iterate :: "json \<Rightarrow> exn + json list" where
  "iterate (JArr xs) = Inr xs"
| "iterate (JObj members) = Inr (map (\<lambda>m. JStr (fst m)) members)"
| "iterate (JStr s) = Inr (map (\<lambda>c. JStr [c]) s)"
| "iterate _ = Inl TypeError"

text \<open>
  A bound of a window, compared with the time column. A number is compared as it
  is, a boolean as 0 or 1. For any other value the comparison is modelled as Python's
  own comparison of a number with it, a TypeError; the special cases pandas has for
  such a bound are not modelled.
\<close>

fun number :: "json \<Rightarrow> exn + real" where
  "number (JNum r) = Inr r"
| "number (JBool b) = Inr (if b then 1 else 0)"
| "number _ = Inl TypeError"

definition slice :: "sample list \<Rightarrow> json \<Rightarrow> json \<Rightarrow> exn + sample list" where
  "slice df start_time end_time =
     and_then (number start_time) (\<lambda>lo.
     and_then (number end_time) (\<lambda>hi.
     Inr (filter (\<lambda>s. lo \<le> real_of_int (time_seconds s) \<and> real_of_int (time_seconds s) \<le> hi) df)))"

section \<open>The segment pipeline\<close>

text \<open>\<open>segment.isnull().all()\<close>: true of the empty segment as well.\<close>

definition isnull_all :: "real option list \<Rightarrow> bool" where
  "isnull_all segment = list_all (\<lambda>v. v = None) segment"

definition ppg_rr_intervals :: "real option list \<Rightarrow> int list" where
  "ppg_rr_intervals ppg_segment = diff_int (map int (where_positive (np_diff ppg_segment)))"

text \<open>
  The PPG part of the loop body: the segment is used as it is, NaN values included.
  The features are computed only when there are at least two intervals.
\<close>

definition ppg_features :: "real option list \<Rightarrow> (real \<times> real) option" where
  "ppg_features ppg_segment =
     (if \<not> isnull_all ppg_segment \<and> length (ppg_rr_intervals ppg_segment) > 1
      then Some (np_std (map real_of_int (ppg_rr_intervals ppg_segment)),
                 sqrt (mean (map (\<lambda>d. (real_of_int d)\<^sup>2) (diff_int (ppg_rr_intervals ppg_segment)))))
      else None)"

definition ppg_emotion_of :: "real option list \<Rightarrow> string" where
  "ppg_emotion_of ppg_segment =
     (case ppg_features ppg_segment of
        None \<Rightarrow> ''Neutral/Calm''
      | Some (ppg_sdnn, ppg_rmssd) \<Rightarrow> classify_ppg_emotion ppg_sdnn ppg_rmssd)"

text \<open>\<open>Series.dropna()\<close>: the values that are present, under their labels.\<close>

definition dropna :: "(nat \<times> real option) list \<Rightarrow> series" where
  "dropna segment = List.map_filter (\<lambda>(l, v). map_option (\<lambda>r. (l, r)) v) segment"

text \<open>The GSR part of the loop body; the sampling rate is the constant 100.\<close>

definition gsr_emotion_of :: "peak_finder \<Rightarrow> (nat \<times> real option) list \<Rightarrow> exn + string" where
  "gsr_emotion_of find_peaks gsr_segment =
     (if isnull_all (map snd gsr_segment) then Inr ''Neutral/Calm''
      else and_then (analyze_gsr find_peaks (dropna gsr_segment) 100)
             (\<lambda>(scr_amplitude, scr_frequency).
                Inr (classify_gsr_emotion scr_amplitude scr_frequency)))"

record result =
  timestamp0 :: json
  timestamp1 :: json
  text_of :: json
  emotion :: string

text \<open>One turn of the loop over the chunks.\<close>

definition process_chunk :: "peak_finder \<Rightarrow> sample list \<Rightarrow> json \<Rightarrow> exn + result" where
  "process_chunk find_peaks df chunk =
     and_then (and_then (getitem_key chunk ''timestamp'') (\<lambda>ts. getitem_idx ts 0)) (\<lambda>start_time.
     and_then (and_then (getitem_key chunk ''timestamp'') (\<lambda>ts. getitem_idx ts 1)) (\<lambda>end_time.
     and_then (getitem_key chunk ''text'') (\<lambda>text.
     and_then (slice df start_time end_time) (\<lambda>segment.
     and_then (gsr_emotion_of find_peaks (map (\<lambda>s. (label s, gsr_signal s)) segment)) (\<lambda>gsr_emotion.
     Inr \<lparr>timestamp0 = start_time, timestamp1 = end_time, text_of = text,
          emotion = combine_emotions (ppg_emotion_of (map ppg_signal segment)) gsr_emotion\<rparr>)))))"

text \<open>
  The endpoint. \<open>file\<close> is the table \<open>read_csv\<close> returns, \<open>None\<close> when it raises;
  \<open>chunks_json\<close> is the value \<open>json.loads\<close> returns, \<open>None\<close> when it raises
  JSONDecodeError. The response is the list of results, or the HTTP error with its
  status code: 400 from the handler of JSONDecodeError, 500 from the handler of every
  other exception.
\<close>

datatype response = Ok "result list" | HTTPException nat

definition analyze_sensors :: "peak_finder \<Rightarrow> table option \<Rightarrow> json option \<Rightarrow> response" where
  "analyze_sensors find_peaks file chunks_json =
     (case file of
        None \<Rightarrow> HTTPException 500
      | Some t \<Rightarrow>
          (case load_frame t of
             Inl e \<Rightarrow> HTTPException 500
           | Inr df \<Rightarrow>
               (case chunks_json of
                  None \<Rightarrow> HTTPException 400
                | Some chunks_data \<Rightarrow>
                    (case and_then (getitem_key chunks_data ''chunks'') (\<lambda>chunks.
                          and_then (iterate chunks) (traverse (process_chunk find_peaks df))) of
                       Inl e \<Rightarrow> HTTPException 500
                     | Inr results \<Rightarrow> Ok results))))"

section \<open>The rule table of the specification\<close>

text \<open>
  Section 4.4 of the specification, in its own words: an ordered list of rules, each a
  condition on (sdnn, rmssd) with a label, evaluated in order, the first match
  winning, and a label for the case that no rule matches. It is compared with
  \<open>classify_ppg_emotion\<close> below.
\<close>

type_synonym rule = "(real \<Rightarrow> real \<Rightarrow> bool) \<times> string"

definition spec_ppg_rule_table :: "rule list" where
  "spec_ppg_rule_table =
     [(\<lambda>sdnn rmssd. sdnn > 100 \<and> rmssd > 50, ''Happy''),
      (\<lambda>sdnn rmssd. sdnn < 50 \<and> rmssd < 30, ''Sad''),
      (\<lambda>sdnn rmssd. sdnn > 100 \<and> rmssd < 30, ''Angry''),
      (\<lambda>sdnn rmssd. 50 \<le> sdnn \<and> sdnn \<le> 100 \<and> 30 \<le> rmssd \<and> rmssd \<le> 50, ''Neutral'')]"

fun spec_first_match :: "rule list \<Rightarrow> string \<Rightarrow> real \<Rightarrow> real \<Rightarrow> string" where
  "spec_first_match [] otherwise a b = otherwise"
| "spec_first_match ((cond, lab) # rules) otherwise a b =
     (if cond a b then lab else spec_first_match rules otherwise a b)"

section \<open>Notions of the specification\<close>

text \<open>
  The characters that can stand in the text of an integer: digits, a sign, the
  underscore and white space. A part of a time string with any other character, or
  with no digit, is not an integer.
\<close>

definition is_int_char :: "char \<Rightarrow> bool" where
  "is_int_char c =
     (is_digit c \<or> is_space c \<or> c = CHR ''+'' \<or> c = CHR ''-'' \<or> c = CHR ''_'')"

definition not_an_integer :: "string \<Rightarrow> bool" where
  "not_an_integer part =
     (list_ex (\<lambda>c. \<not> is_int_char c) part \<or> \<not> list_ex is_digit part \<or>
      max_str_digits < length (filter is_digit part))"






text \<open>
  The PPG segment as sections 3 and 4.3 of the specification have it, the missing
  values excluded. The program has no such step for the PPG channel; the definition
  is compared with the program below.
\<close>

definition spec_present_values :: "real option list \<Rightarrow> real option list" where
  "spec_present_values segment = filter (\<lambda>v. v \<noteq> None) segment"

section \<open>Basic facts\<close>

lemma and_then_Inr [simp]: "and_then (Inr v) f = f v"
  by (simp add: and_then_def)

lemma and_then_Inl [simp]: "and_then (Inl e) f = Inl e"
  by (simp add: and_then_def)

section \<open>The PPG classifier\<close>

text \<open>
  C1 (amended). At the four threshold corners (sdnn, rmssd) = (50, 30), (100, 30),
  (75, 40) and (100, 50) the classifier returns "Neutral": all four lie inside the
  inclusive bounds of the fourth rule, and no earlier rule matches them.
\<close>

theorem classify_ppg_emotion_corners:
  "classify_ppg_emotion 50 30 = ''Neutral'' \<and>
   classify_ppg_emotion 100 30 = ''Neutral'' \<and>
   classify_ppg_emotion 75 40 = ''Neutral'' \<and>
   classify_ppg_emotion 100 50 = ''Neutral''"
  by (simp add: classify_ppg_emotion_def)

text \<open>
  C1 as stated fails: at (100, 30) the label is not "Angry", and at (100, 50) the
  classifier does not fall through to "Neutral/Calm".
\<close>

theorem classify_ppg_emotion_corners_counterexample:
  "classify_ppg_emotion 100 30 \<noteq> ''Angry'' \<and> classify_ppg_emotion 100 50 \<noteq> ''Neutral/Calm''"
  by (simp add: classify_ppg_emotion_def)

text \<open>
  C2. \<open>classify_ppg_emotion\<close> is the ordered decision list of section 4.4, for all
  reals: it equals the rule table evaluated first match first; it returns "Happy"
  exactly when sdnn > 100 and rmssd > 50; otherwise "Sad" exactly when sdnn < 50 and
  rmssd < 30; otherwise "Angry" exactly when sdnn > 100 and rmssd < 30; otherwise
  "Neutral" exactly when 50 <= sdnn <= 100 and 30 <= rmssd <= 50; otherwise
  "Neutral/Calm".
\<close>

theorem classify_ppg_emotion_decision_list:
  "classify_ppg_emotion sdnn rmssd = spec_first_match spec_ppg_rule_table ''Neutral/Calm'' sdnn rmssd \<and>
   (classify_ppg_emotion sdnn rmssd = ''Happy'' \<longleftrightarrow> sdnn > 100 \<and> rmssd > 50) \<and>
   (\<not> (sdnn > 100 \<and> rmssd > 50) \<longrightarrow>
      (classify_ppg_emotion sdnn rmssd = ''Sad'' \<longleftrightarrow> sdnn < 50 \<and> rmssd < 30)) \<and>
   (\<not> (sdnn > 100 \<and> rmssd > 50) \<and> \<not> (sdnn < 50 \<and> rmssd < 30) \<longrightarrow>
      (classify_ppg_emotion sdnn rmssd = ''Angry'' \<longleftrightarrow> sdnn > 100 \<and> rmssd < 30)) \<and>
   (\<not> (sdnn > 100 \<and> rmssd > 50) \<and> \<not> (sdnn < 50 \<and> rmssd < 30) \<and> \<not> (sdnn > 100 \<and> rmssd < 30) \<longrightarrow>
      (classify_ppg_emotion sdnn rmssd = ''Neutral'' \<longleftrightarrow>
         50 \<le> sdnn \<and> sdnn \<le> 100 \<and> 30 \<le> rmssd \<and> rmssd \<le> 50)) \<and>
   (\<not> (sdnn > 100 \<and> rmssd > 50) \<and> \<not> (sdnn < 50 \<and> rmssd < 30) \<and> \<not> (sdnn > 100 \<and> rmssd < 30) \<and>
    \<not> (50 \<le> sdnn \<and> sdnn \<le> 100 \<and> 30 \<le> rmssd \<and> rmssd \<le> 50) \<longrightarrow>
      classify_ppg_emotion sdnn rmssd = ''Neutral/Calm'')"
proof -
  have table: "classify_ppg_emotion sdnn rmssd =
      spec_first_match spec_ppg_rule_table ''Neutral/Calm'' sdnn rmssd"
    by (simp add: classify_ppg_emotion_def spec_ppg_rule_table_def)
  have happy: "classify_ppg_emotion sdnn rmssd = ''Happy'' \<longleftrightarrow> sdnn > 100 \<and> rmssd > 50"
    by (simp add: classify_ppg_emotion_def)
  have sad: "\<not> (sdnn > 100 \<and> rmssd > 50) \<longrightarrow>
      (classify_ppg_emotion sdnn rmssd = ''Sad'' \<longleftrightarrow> sdnn < 50 \<and> rmssd < 30)"
    by (simp add: classify_ppg_emotion_def)
  have angry: "\<not> (sdnn > 100 \<and> rmssd > 50) \<and> \<not> (sdnn < 50 \<and> rmssd < 30) \<longrightarrow>
      (classify_ppg_emotion sdnn rmssd = ''Angry'' \<longleftrightarrow> sdnn > 100 \<and> rmssd < 30)"
    by (simp add: classify_ppg_emotion_def)
  have neutral: "\<not> (sdnn > 100 \<and> rmssd > 50) \<and> \<not> (sdnn < 50 \<and> rmssd < 30) \<and>
      \<not> (sdnn > 100 \<and> rmssd < 30) \<longrightarrow>
      (classify_ppg_emotion sdnn rmssd = ''Neutral'' \<longleftrightarrow>
         50 \<le> sdnn \<and> sdnn \<le> 100 \<and> 30 \<le> rmssd \<and> rmssd \<le> 50)"
    by (simp add: classify_ppg_emotion_def)
  have calm: "\<not> (sdnn > 100 \<and> rmssd > 50) \<and> \<not> (sdnn < 50 \<and> rmssd < 30) \<and>
      \<not> (sdnn > 100 \<and> rmssd < 30) \<and>
      \<not> (50 \<le> sdnn \<and> sdnn \<le> 100 \<and> 30 \<le> rmssd \<and> rmssd \<le> 50) \<longrightarrow>
      classify_ppg_emotion sdnn rmssd = ''Neutral/Calm''"
    by (simp add: classify_ppg_emotion_def)
  from table happy sad angry neutral calm show ?thesis by blast
qed

text \<open>The five rules of C2, each at an input that reaches it.\<close>

theorem classify_ppg_emotion_decision_list_witness:
  "classify_ppg_emotion 120 60 = ''Happy'' \<and>
   classify_ppg_emotion 10 10 = ''Sad'' \<and>
   classify_ppg_emotion 120 10 = ''Angry'' \<and>
   classify_ppg_emotion 75 40 = ''Neutral'' \<and>
   classify_ppg_emotion 10 60 = ''Neutral/Calm''"
  using classify_ppg_emotion_decision_list [of 120 60]
    classify_ppg_emotion_decision_list [of 10 10]
    classify_ppg_emotion_decision_list [of 120 10]
    classify_ppg_emotion_decision_list [of 75 40]
    classify_ppg_emotion_decision_list [of 10 60]
  by (simp add: spec_ppg_rule_table_def)

section \<open>The fusion rule\<close>

text \<open>
  C4. For every pair of labels, \<open>combine_emotions\<close> returns "Happy/Angry" when the
  GSR label is "Happy/Angry", whatever the PPG label, and returns the PPG label for
  every other GSR label.
\<close>

theorem combine_emotions_precedence:
  "(gsr_label = ''Happy/Angry'' \<longrightarrow> combine_emotions ppg_label gsr_label = ''Happy/Angry'') \<and>
   (gsr_label \<noteq> ''Happy/Angry'' \<longrightarrow> combine_emotions ppg_label gsr_label = ppg_label)"
  by (simp add: combine_emotions_def)

theorem combine_emotions_precedence_witness:
  "combine_emotions ''Sad'' ''Happy/Angry'' = ''Happy/Angry'' \<and>
   combine_emotions ''Sad'' ''Neutral'' = ''Sad''"
  using combine_emotions_precedence [of "''Happy/Angry''" "''Sad''"]
    combine_emotions_precedence [of "''Neutral''" "''Sad''"]
  by simp

section \<open>The time parser\<close>

lemma split_acc_nonempty: "split_acc sep cur s \<noteq> []"
  by (induction s arbitrary: cur) auto

lemma split_acc_single:
  "split_acc sep cur s = [p] \<longleftrightarrow> p = rev cur @ s \<and> sep \<notin> set s"
  by (induction s arbitrary: cur p) (auto simp: split_acc_nonempty)

lemma split_acc_pair:
  "split_acc sep cur s = [p, q] \<longleftrightarrow>
     (\<exists>a. p = rev cur @ a \<and> s = a @ sep # q \<and> sep \<notin> set a \<and> sep \<notin> set q)"
proof (induction s arbitrary: cur)
  case Nil
  then show ?case by simp
next
  case (Cons x xs)
  show ?case
  proof (cases "x = sep")
    case True
    have "(\<exists>a. p = rev cur @ a \<and> sep # xs = a @ sep # q \<and> sep \<notin> set a \<and> sep \<notin> set q)
          \<longleftrightarrow> p = rev cur \<and> q = xs \<and> sep \<notin> set xs"
      by (auto simp: Cons_eq_append_conv)
    with True show ?thesis by (auto simp: split_acc_single)
  next
    case False
    have "(\<exists>a. p = rev cur @ a \<and> x # xs = a @ sep # q \<and> sep \<notin> set a \<and> sep \<notin> set q)
          \<longleftrightarrow> (\<exists>a'. p = rev (x # cur) @ a' \<and> xs = a' @ sep # q \<and> sep \<notin> set a' \<and> sep \<notin> set q)"
      using False by (auto simp: Cons_eq_append_conv)
    with False Cons.IH [of "x # cur"] show ?thesis by simp
  qed
qed

lemma unpack2_Inr: "unpack2 xs = Inr (a, b) \<longleftrightarrow> xs = [a, b]"
  by (cases xs rule: unpack2.cases) auto

lemma unpack2_Inl: "unpack2 xs = Inl e \<Longrightarrow> e = ValueError"
  by (cases xs rule: unpack2.cases) auto

lemma unpack2_split:
  "unpack2 (str_split sep s) = Inr (p, q) \<longleftrightarrow> s = p @ sep # q \<and> sep \<notin> set p \<and> sep \<notin> set q"
  by (auto simp: unpack2_Inr str_split_def split_acc_pair)

lemma py_int_Inl: "py_int s = Inl e \<Longrightarrow> e = ValueError"
  by (auto simp: py_int_def Let_def split: if_splits)

lemma try_Inl:
  "convert_time_to_seconds_try v = Inl e \<Longrightarrow> e = ValueError \<or> e = AttributeError"
  by (auto simp: convert_time_to_seconds_try_def and_then_def
      split: pyval.splits sum.splits prod.splits dest: unpack2_Inl py_int_Inl)

lemma try_Inr:
  "convert_time_to_seconds_try v = Inr n \<longleftrightarrow>
     (\<exists>minutes seconds sample m s.
        v = PyStr (minutes @ '':'' @ seconds @ ''.'' @ sample) \<and>
        CHR '':'' \<notin> set minutes \<and> CHR '':'' \<notin> set seconds \<and> CHR '':'' \<notin> set sample \<and>
        CHR ''.'' \<notin> set seconds \<and> CHR ''.'' \<notin> set sample \<and>
        py_int minutes = Inr m \<and> py_int seconds = Inr s \<and> n = m * 60 + s)"
  (is "?L \<longleftrightarrow> ?R")
proof
  assume ?L
  then obtain str where v: "v = PyStr str"
    by (cases v) (auto simp: convert_time_to_seconds_try_def)
  from \<open>?L\<close> v obtain minutes seconds_sample where
    u1: "unpack2 (str_split CHR '':'' str) = Inr (minutes, seconds_sample)"
    by (cases "unpack2 (str_split CHR '':'' str)") (auto simp: convert_time_to_seconds_try_def)
  from \<open>?L\<close> v u1 obtain seconds sample where
    u2: "unpack2 (str_split CHR ''.'' seconds_sample) = Inr (seconds, sample)"
    by (cases "unpack2 (str_split CHR ''.'' seconds_sample)") (auto simp: convert_time_to_seconds_try_def)
  from \<open>?L\<close> v u1 u2 obtain m where m: "py_int minutes = Inr m"
    by (cases "py_int minutes") (auto simp: convert_time_to_seconds_try_def)
  from \<open>?L\<close> v u1 u2 m obtain s where s: "py_int seconds = Inr s"
    by (cases "py_int seconds") (auto simp: convert_time_to_seconds_try_def)
  from \<open>?L\<close> v u1 u2 m s have n: "n = m * 60 + s"
    by (simp add: convert_time_to_seconds_try_def)
  from u1 have d1: "str = minutes @ CHR '':'' # seconds_sample" "CHR '':'' \<notin> set minutes"
      "CHR '':'' \<notin> set seconds_sample"
    by (simp_all add: unpack2_split)
  from u2 have d2: "seconds_sample = seconds @ CHR ''.'' # sample" "CHR ''.'' \<notin> set seconds"
      "CHR ''.'' \<notin> set sample"
    by (simp_all add: unpack2_split)
  from d1 d2 have "CHR '':'' \<notin> set seconds" "CHR '':'' \<notin> set sample" by simp_all
  with v d1 d2 m s n show ?R
    by (intro exI [of _ minutes] exI [of _ seconds] exI [of _ sample] exI [of _ m] exI [of _ s]) simp
next
  assume ?R
  then obtain minutes seconds sample m s where
    v: "v = PyStr (minutes @ '':'' @ seconds @ ''.'' @ sample)" and
    c: "CHR '':'' \<notin> set minutes" "CHR '':'' \<notin> set seconds" "CHR '':'' \<notin> set sample" 
       "CHR ''.'' \<notin> set seconds" "CHR ''.'' \<notin> set sample" and
    p: "py_int minutes = Inr m" "py_int seconds = Inr s" "n = m * 60 + s"
    by blast
  from c have u1: "unpack2 (str_split CHR '':'' (minutes @ '':'' @ seconds @ ''.'' @ sample))
      = Inr (minutes, seconds @ ''.'' @ sample)"
    by (simp add: unpack2_split)
  from c have u2: "unpack2 (str_split CHR ''.'' (seconds @ ''.'' @ sample)) = Inr (seconds, sample)"
    by (simp add: unpack2_split)
  from v u1 u2 p show ?L by (simp add: convert_time_to_seconds_try_def)
qed

lemma digit_not_space: "is_digit c \<Longrightarrow> \<not> is_space c"
  by (auto simp: is_digit_def is_space_def)

lemma digit_not_mark: "is_digit c \<Longrightarrow> c \<noteq> CHR ''+'' \<and> c \<noteq> CHR ''-'' \<and> c \<noteq> CHR ''_''"
  by (auto simp: is_digit_def)

lemma strip_decomp:
  "\<exists>a b. s = a @ strip s @ b \<and> list_all is_space a \<and> list_all is_space b"
proof -
  let ?u = "dropWhile is_space s"
  have s: "s = takeWhile is_space s @ ?u" by simp
  have u: "?u = strip s @ rev (takeWhile is_space (rev ?u))"
    unfolding strip_def by (metis rev_append rev_rev_ident takeWhile_dropWhile_id)
  have a: "list_all is_space (takeWhile is_space s)"
    by (simp add: list_all_iff) (meson set_takeWhileD)
  have b: "list_all is_space (rev (takeWhile is_space (rev ?u)))"
    by (simp add: list_all_iff) (meson set_takeWhileD)
  from s u have "s = takeWhile is_space s @ strip s @ rev (takeWhile is_space (rev ?u))"
    by metis
  with a b show ?thesis by blast
qed

lemma strip_digits: "s \<noteq> [] \<Longrightarrow> list_all is_digit s \<Longrightarrow> strip s = s"
proof -
  assume ne: "s \<noteq> []" and d: "list_all is_digit s"
  from ne d have "\<not> is_space (hd s)" by (cases s) (auto dest: digit_not_space)
  with ne have 1: "dropWhile is_space s = s" by (cases s) auto
  from ne d have "\<not> is_space (last s)"
    by (auto simp: list_all_iff dest: digit_not_space)
  with ne have "\<not> is_space (hd (rev s))" by (simp add: hd_rev)
  with ne have 2: "dropWhile is_space (rev s) = rev s" by (cases "rev s") auto
  from 1 2 show ?thesis by (simp add: strip_def)
qed

lemma digitpart_digits: "s \<noteq> [] \<Longrightarrow> list_all is_digit s \<Longrightarrow> digitpart s"
  by (induction s rule: digitpart.induct) (auto dest: digit_not_mark)

lemma digitpart_chars:
  "digitpart s \<Longrightarrow> (\<forall>c \<in> set s. is_digit c \<or> c = CHR ''_'') \<and> (\<exists>c \<in> set s. is_digit c)"
  by (induction s rule: digitpart.induct) (auto split: if_splits)

lemma py_int_digits:
  assumes "s \<noteq> []" "list_all is_digit s" "length s \<le> max_str_digits"
  shows "py_int s = Inr (int (decimal s))"
proof -
  from assms have st: "strip s = s" by (simp add: strip_digits)
  from assms have hd: "hd s \<noteq> CHR ''-''" "hd s \<noteq> CHR ''+''"
    by (cases s; auto dest: digit_not_mark)+
  from assms have f: "filter is_digit s = s" by (simp add: list_all_iff)
  from assms have "digitpart s" by (simp add: digitpart_digits)
  with st hd f assms show ?thesis by (simp add: py_int_def Let_def)
qed

lemma py_int_Inr_chars:
  assumes "py_int s = Inr n"
  shows "\<not> not_an_integer s"
proof -
  obtain a b where s: "s = a @ strip s @ b" and a: "list_all is_space a" and b: "list_all is_space b"
    using strip_decomp by blast
  define t where "t = strip s"
  define signed where "signed = (t \<noteq> [] \<and> (hd t = CHR ''-'' \<or> hd t = CHR ''+''))"
  define body where "body = (if signed then tl t else t)"
  from assms have dp: "digitpart body" and len: "length (filter is_digit body) \<le> max_str_digits"
    by (auto simp: py_int_def Let_def t_def signed_def body_def split: if_splits)
  have t: "t = body \<or> (\<exists>c. (c = CHR ''-'' \<or> c = CHR ''+'') \<and> t = c # body)"
    by (cases t) (auto simp: body_def signed_def)
  from dp have bc: "\<forall>c \<in> set body. is_digit c \<or> c = CHR ''_''" and bd: "\<exists>c \<in> set body. is_digit c"
    by (auto dest: digitpart_chars)
  have nd: "\<not> is_digit CHR ''-''" "\<not> is_digit CHR ''+''" by (simp_all add: is_digit_def)
  from a have fa: "filter is_digit a = []"
    by (auto simp: list_all_iff filter_empty_conv dest: digit_not_space)
  from b have fb: "filter is_digit b = []"
    by (auto simp: list_all_iff filter_empty_conv dest: digit_not_space)
  from t nd have ft: "filter is_digit t = filter is_digit body" by auto
  have "filter is_digit s = filter is_digit a @ filter is_digit t @ filter is_digit b"
    using s unfolding t_def by (metis filter_append)
  with fa fb ft have fs: "filter is_digit s = filter is_digit body" by simp
  from t bc have tc: "\<forall>c \<in> set t. is_int_char c" by (auto simp: is_int_char_def)
  have "set s = set a \<union> set t \<union> set b" using s unfolding t_def by (metis set_append Un_assoc)
  with a b tc have all: "\<forall>c \<in> set s. is_int_char c"
    by (auto simp: list_all_iff is_int_char_def)
  from t bd have "\<exists>c \<in> set t. is_digit c" by auto
  with \<open>set s = set a \<union> set t \<union> set b\<close> have ex: "\<exists>c \<in> set s. is_digit c" by auto
  from all ex fs len show ?thesis
    by (auto simp: not_an_integer_def list_ex_iff)
qed

lemma split_first_unique:
  "c \<notin> set a \<Longrightarrow> c \<notin> set a' \<Longrightarrow> a @ c # b = a' @ c # b' \<Longrightarrow> a = a' \<and> b = b'"
proof (induction a arbitrary: a')
  case Nil
  then show ?case by (cases a') auto
next
  case (Cons x xs)
  then show ?case by (cases a') auto
qed

lemma try_not_an_integer:
  assumes "CHR '':'' \<notin> set minutes" "CHR ''.'' \<notin> set seconds"
    and "not_an_integer minutes \<or> not_an_integer seconds"
  shows "convert_time_to_seconds (PyStr (minutes @ '':'' @ seconds @ ''.'' @ sample)) = Inr None"
proof (cases "convert_time_to_seconds_try (PyStr (minutes @ '':'' @ seconds @ ''.'' @ sample))")
  case (Inl e)
  with try_Inl [of _ e] show ?thesis by (auto simp: convert_time_to_seconds_def)
next
  case (Inr n)
  then obtain m' s' r' m s where
    eq: "minutes @ '':'' @ seconds @ ''.'' @ sample = m' @ '':'' @ s' @ ''.'' @ r'" and
    c: "CHR '':'' \<notin> set m'" "CHR ''.'' \<notin> set s'" and
    p: "py_int m' = Inr m" "py_int s' = Inr s"
    unfolding try_Inr by auto
  from eq assms(1) c(1) have 1: "minutes = m'" "seconds @ ''.'' @ sample = s' @ ''.'' @ r'"
    using split_first_unique [of "CHR '':''" minutes m' "seconds @ ''.'' @ sample" "s' @ ''.'' @ r'"]
    by simp_all
  from 1(2) assms(2) c(2) have 2: "seconds = s'"
    using split_first_unique [of "CHR ''.''" seconds s' sample r'] by simp
  from p 1 2 have "\<not> not_an_integer minutes" "\<not> not_an_integer seconds"
    by (auto dest: py_int_Inr_chars)
  with assms(3) show ?thesis by blast
qed

lemma length_strip_le: "length (strip s) \<le> length s"
proof -
  have "length (strip s) \<le> length (dropWhile is_space s)"
    unfolding strip_def by (metis length_dropWhile_le length_rev)
  also have "\<dots> \<le> length s" by (rule length_dropWhile_le)
  finally show ?thesis .
qed

lemma py_int_short:
  assumes "length s \<le> 20"
  shows "py_int s =
     (if digitpart (if strip s \<noteq> [] \<and> (hd (strip s) = CHR ''-'' \<or> hd (strip s) = CHR ''+'')
                    then tl (strip s) else strip s)
      then Inr ((if strip s \<noteq> [] \<and> hd (strip s) = CHR ''-'' then - 1 else 1) *
                int (decimal (if strip s \<noteq> [] \<and> (hd (strip s) = CHR ''-'' \<or> hd (strip s) = CHR ''+'')
                              then tl (strip s) else strip s)))
      else Inl ValueError)"
proof -
  have bound: "length (strip s) \<le> max_str_digits"
    using assms length_strip_le [of s] by (simp add: max_str_digits_def)
  have "length (filter is_digit (tl (strip s))) \<le> length (strip s)"
    by (metis length_filter_le length_tl diff_le_self le_trans)
  with bound have "length (filter is_digit (tl (strip s))) \<le> max_str_digits"
    by linarith
  moreover from bound have "length (filter is_digit (strip s)) \<le> max_str_digits"
    using length_filter_le [of is_digit "strip s"] by linarith
  ultimately show ?thesis by (auto simp: py_int_def Let_def)
qed

text \<open>
  What \<open>int\<close> accepts and what it rejects, at the borders of its grammar: leading
  zeros, white space around, a sign, single underscores; and no digits, doubled or
  outer underscores, two signs, a blank inside, a dot, and the separator 0x1C, which
  is not white space for \<open>int\<close>.
\<close>

lemma py_int_examples:
  "py_int ''30'' = Inr 30 \<and> py_int ''007'' = Inr 7 \<and> py_int '' 1 '' = Inr 1 \<and>
   py_int ''+7'' = Inr 7 \<and> py_int ''-7'' = Inr (- 7) \<and> py_int ''1_0'' = Inr 10 \<and>
   py_int [CHR 0xA0, CHR ''1'', CHR 0x85] = Inr 1 \<and> py_int [CHR 0x09, CHR ''1'', CHR 0x0D] = Inr 1 \<and>
   py_int '''' = Inl ValueError \<and> py_int ''a'' = Inl ValueError \<and>
   py_int ''1__0'' = Inl ValueError \<and> py_int ''_1'' = Inl ValueError \<and>
   py_int ''1_'' = Inl ValueError \<and> py_int ''+-1'' = Inl ValueError \<and>
   py_int ''- 1'' = Inl ValueError \<and> py_int ''1 2'' = Inl ValueError \<and>
   py_int ''1.5'' = Inl ValueError \<and> py_int [CHR 0x1C, CHR ''1''] = Inl ValueError \<and>
   py_int [CHR 0x0A, CHR 0x0B, CHR 0x0C, CHR ''1'', CHR 0x20] = Inr 1 \<and>
   py_int [CHR 0x1F, CHR ''1''] = Inl ValueError \<and> py_int [CHR ''1'', CHR 0xE9] = Inl ValueError"
  by (simp add: py_int_short strip_def is_space_def decimal_def is_digit_def digit_val_def)

lemma py_int_not_an_integer: "not_an_integer s \<Longrightarrow> py_int s = Inl ValueError"
proof (cases "py_int s")
  case (Inl e)
  then show ?thesis by (simp add: py_int_Inl)
next
  case (Inr n)
  assume "not_an_integer s"
  with Inr show ?thesis by (auto dest: py_int_Inr_chars)
qed

text \<open>The limit on the digits: 4300 digits are converted, 4301 are not.\<close>

lemma py_int_limit:
  "py_int (replicate 4300 CHR ''1'') = Inr (int (decimal (replicate 4300 CHR ''1''))) \<and>
   py_int (replicate 4301 CHR ''1'') = Inl ValueError"
proof -
  have d: "is_digit CHR ''1''" by (simp add: is_digit_def)
  then have "py_int (replicate 4300 CHR ''1'') = Inr (int (decimal (replicate 4300 CHR ''1'')))"
    by (intro py_int_digits) (simp_all add: list_all_iff max_str_digits_def)
  moreover from d have "not_an_integer (replicate 4301 CHR ''1'')"
    by (simp add: not_an_integer_def max_str_digits_def)
  then have "py_int (replicate 4301 CHR ''1'') = Inl ValueError"
    by (rule py_int_not_an_integer)
  ultimately show ?thesis by simp
qed

lemmas int_ev = py_int_short strip_def is_space_def decimal_def is_digit_def
  digit_val_def

text \<open>
  C6. For every string of the form minutes : seconds . sample-index, where the parts
  hold no further colon or dot and \<open>int\<close> accepts the minutes and the seconds,
  \<open>convert_time_to_seconds\<close> returns minutes * 60 + seconds; in particular when the
  minutes and the seconds are plain decimal digits (at most 4300 of them, the limit
  of \<open>int\<close>), with their decimal values. When the part before the first colon or the
  part between it and the next dot is not an integer (it has a character that is not
  a digit, a sign, an underscore or white space, or it has no digit, or too many),
  the result is \<open>None\<close>. For every other input, a string of another form or a value
  that is not a string, it returns \<open>None\<close>. It never raises.
\<close>

theorem convert_time_to_seconds_parses:
  "(time_str = PyStr (minutes @ '':'' @ seconds @ ''.'' @ sample) \<and>
    CHR '':'' \<notin> set minutes \<and> CHR '':'' \<notin> set seconds \<and> CHR '':'' \<notin> set sample \<and>
    CHR ''.'' \<notin> set seconds \<and> CHR ''.'' \<notin> set sample \<and>
    py_int minutes = Inr m \<and> py_int seconds = Inr s \<longrightarrow>
      convert_time_to_seconds time_str = Inr (Some (m * 60 + s))) \<and>
   (time_str = PyStr (minutes @ '':'' @ seconds @ ''.'' @ sample) \<and>
    minutes \<noteq> [] \<and> list_all is_digit minutes \<and> length minutes \<le> max_str_digits \<and>
    seconds \<noteq> [] \<and> list_all is_digit seconds \<and> length seconds \<le> max_str_digits \<and>
    CHR '':'' \<notin> set sample \<and> CHR ''.'' \<notin> set sample \<longrightarrow>
      convert_time_to_seconds time_str =
        Inr (Some (int (decimal minutes) * 60 + int (decimal seconds)))) \<and>
   (time_str = PyStr (minutes @ '':'' @ seconds @ ''.'' @ sample) \<and>
    CHR '':'' \<notin> set minutes \<and> CHR ''.'' \<notin> set seconds \<and>
    (not_an_integer minutes \<or> not_an_integer seconds) \<longrightarrow>
      convert_time_to_seconds time_str = Inr None) \<and>
   (\<not> (\<exists>minutes seconds sample m s.
        time_str = PyStr (minutes @ '':'' @ seconds @ ''.'' @ sample) \<and>
        CHR '':'' \<notin> set minutes \<and> CHR '':'' \<notin> set seconds \<and> CHR '':'' \<notin> set sample \<and>
        CHR ''.'' \<notin> set seconds \<and> CHR ''.'' \<notin> set sample \<and>
        py_int minutes = Inr m \<and> py_int seconds = Inr s) \<longrightarrow>
      convert_time_to_seconds time_str = Inr None) \<and>
   (\<exists>r. convert_time_to_seconds time_str = Inr r)"
proof -
  have form: "convert_time_to_seconds time_str = Inr (Some (m * 60 + s))"
    if "time_str = PyStr (minutes @ '':'' @ seconds @ ''.'' @ sample)"
      "CHR '':'' \<notin> set minutes" "CHR '':'' \<notin> set seconds" "CHR '':'' \<notin> set sample"
      "CHR ''.'' \<notin> set seconds" "CHR ''.'' \<notin> set sample"
      "py_int minutes = Inr m" "py_int seconds = Inr s" for minutes seconds m s
  proof -
    from that have "convert_time_to_seconds_try time_str = Inr (m * 60 + s)"
      unfolding try_Inr by blast
    then show ?thesis by (simp add: convert_time_to_seconds_def)
  qed
  have no_mark: "CHR '':'' \<notin> set part \<and> CHR ''.'' \<notin> set part" if "list_all is_digit part" for part
    using that by (auto simp: list_all_iff is_digit_def)
  have digits: "convert_time_to_seconds time_str =
        Inr (Some (int (decimal minutes) * 60 + int (decimal seconds)))"
    if "time_str = PyStr (minutes @ '':'' @ seconds @ ''.'' @ sample)"
      "minutes \<noteq> []" "list_all is_digit minutes" "length minutes \<le> max_str_digits"
      "seconds \<noteq> []" "list_all is_digit seconds" "length seconds \<le> max_str_digits"
      "CHR '':'' \<notin> set sample" "CHR ''.'' \<notin> set sample"
    using that no_mark [of minutes] no_mark [of seconds]
      form [of minutes seconds "int (decimal minutes)" "int (decimal seconds)"]
    by (simp add: py_int_digits)
  have part: "convert_time_to_seconds time_str = Inr None"
    if "time_str = PyStr (minutes @ '':'' @ seconds @ ''.'' @ sample)"
      "CHR '':'' \<notin> set minutes" "CHR ''.'' \<notin> set seconds"
      "not_an_integer minutes \<or> not_an_integer seconds"
    using that try_not_an_integer [of minutes seconds sample] by simp
  have other: "convert_time_to_seconds time_str = Inr None"
    if no: "\<not> (\<exists>minutes seconds sample m s.
        time_str = PyStr (minutes @ '':'' @ seconds @ ''.'' @ sample) \<and>
        CHR '':'' \<notin> set minutes \<and> CHR '':'' \<notin> set seconds \<and> CHR '':'' \<notin> set sample \<and>
        CHR ''.'' \<notin> set seconds \<and> CHR ''.'' \<notin> set sample \<and>
        py_int minutes = Inr m \<and> py_int seconds = Inr s)"
  proof (cases "convert_time_to_seconds_try time_str")
    case (Inl e)
    with try_Inl [of time_str e] show ?thesis by (auto simp: convert_time_to_seconds_def)
  next
    case (Inr n)
    with no show ?thesis unfolding try_Inr by blast
  qed
  have total: "\<exists>r. convert_time_to_seconds time_str = Inr r"
  proof (cases "convert_time_to_seconds_try time_str")
    case (Inl e)
    with try_Inl [of time_str e] show ?thesis by (auto simp: convert_time_to_seconds_def)
  next
    case (Inr n)
    then show ?thesis by (simp add: convert_time_to_seconds_def)
  qed
  from form [of minutes seconds m s] digits part other total show ?thesis by blast
qed

text \<open>
  The examples of C6: "1:30.045" gives 90; "abc", "1-30" and a row index give \<open>None\<close>;
  so do "a:b.c" and "1.5:30.0", whose parts are not integers, and a minute part that
  starts with the separator 0x1C; a minute part that starts with the space 0xA0 is
  read, and so are white space, underscores and signs in the parts.
\<close>

theorem convert_time_to_seconds_parses_witness:
  "convert_time_to_seconds (PyStr ''1:30.045'') = Inr (Some 90) \<and>
   convert_time_to_seconds (PyStr ''abc'') = Inr None \<and>
   convert_time_to_seconds (PyStr ''1-30'') = Inr None \<and>
   convert_time_to_seconds (PyInt 7) = Inr None \<and>
   convert_time_to_seconds (PyStr ''a:b.c'') = Inr None \<and>
   convert_time_to_seconds (PyStr ''1.5:30.0'') = Inr None \<and>
   convert_time_to_seconds (PyStr (CHR 0x1C # ''1:30.0'')) = Inr None \<and>
   convert_time_to_seconds (PyStr (CHR 0xA0 # ''1:30.0'')) = Inr (Some 90) \<and>
   convert_time_to_seconds (PyStr '' 1_0 :-5 .x'') = Inr (Some 595)"
proof -
  have a: "convert_time_to_seconds (PyStr ''1:30.045'') = Inr (Some 90)"
    using convert_time_to_seconds_parses [of "PyStr ''1:30.045''" "''1''" "''30''" "''045''"]
    by (simp add: int_ev max_str_digits_def)
  have no_colon: "\<not> (\<exists>minutes seconds sample m s.
        PyStr str = PyStr (minutes @ '':'' @ seconds @ ''.'' @ sample) \<and>
        CHR '':'' \<notin> set minutes \<and> CHR '':'' \<notin> set seconds \<and> CHR '':'' \<notin> set sample \<and>
        CHR ''.'' \<notin> set seconds \<and> CHR ''.'' \<notin> set sample \<and>
        py_int minutes = Inr m \<and> py_int seconds = Inr s)" if "CHR '':'' \<notin> set str" for str and m s :: int
    using that by auto
  have b: "convert_time_to_seconds (PyStr ''abc'') = Inr None"
    using convert_time_to_seconds_parses [of "PyStr ''abc''"] no_colon [of "''abc''"] by simp
  have c: "convert_time_to_seconds (PyStr ''1-30'') = Inr None"
    using convert_time_to_seconds_parses [of "PyStr ''1-30''"] no_colon [of "''1-30''"] by simp
  have d: "convert_time_to_seconds (PyInt 7) = Inr None"
    using convert_time_to_seconds_parses [of "PyInt 7"] by simp
  have e: "convert_time_to_seconds (PyStr ''a:b.c'') = Inr None"
    using convert_time_to_seconds_parses [of "PyStr ''a:b.c''" "''a''" "''b''" "''c''"]
    by (simp add: not_an_integer_def is_int_char_def is_digit_def is_space_def)
  have f: "convert_time_to_seconds (PyStr ''1.5:30.0'') = Inr None"
    using convert_time_to_seconds_parses [of "PyStr ''1.5:30.0''" "''1.5''" "''30''" "''0''"]
    by (simp add: not_an_integer_def is_int_char_def is_digit_def is_space_def)
  have g: "convert_time_to_seconds (PyStr (CHR 0x1C # ''1:30.0'')) = Inr None"
    using convert_time_to_seconds_parses [of "PyStr (CHR 0x1C # ''1:30.0'')" "[CHR 0x1C, CHR ''1'']" "''30''" "''0''"]
    by (simp add: not_an_integer_def is_int_char_def is_digit_def is_space_def)
  have h: "convert_time_to_seconds (PyStr (CHR 0xA0 # ''1:30.0'')) = Inr (Some 90)"
    using convert_time_to_seconds_parses [of "PyStr (CHR 0xA0 # ''1:30.0'')" "[CHR 0xA0, CHR ''1'']" "''30''" "''0''" 1 30]
    by (simp add: int_ev)
  have i: "convert_time_to_seconds (PyStr '' 1_0 :-5 .x'') = Inr (Some 595)"
    using convert_time_to_seconds_parses [of "PyStr '' 1_0 :-5 .x''" "'' 1_0 ''" "''-5 ''" "''x''" 10 "- 5"]
    by (simp add: int_ev)
  from a b c d e f g h i show ?thesis by simp
qed


section \<open>The GSR analyzer\<close>

lemma truediv_Inr: "b \<noteq> 0 \<Longrightarrow> truediv a b = Inr (a / b)"
  by (simp add: truediv_def)

lemma series_getitem_not_zdiv: "series_getitem ser keys \<noteq> Inl ZeroDivisionError"
  unfolding series_getitem_def
  by (induction keys) (auto simp: and_then_def split: sum.splits option.splits)

text \<open>
  C5. \<open>analyze_gsr\<close> returns (0, 0) for the empty segment. For every other segment
  the divisor of the frequency, the length over the sampling rate 100, is not zero,
  so the analyzer raises ZeroDivisionError only if the peak finder itself does, and
  where the peaks are found and selected the frequency is their number over that
  divisor.
\<close>

theorem analyze_gsr_no_division_by_zero:
  "analyze_gsr find_peaks [] sampling_rate = Inr (0, 0) \<and>
   (gsr_data \<noteq> [] \<longrightarrow>
      real (length gsr_data) / real_of_int 100 \<noteq> 0 \<and>
      (find_peaks (map snd gsr_data) 0.1 100 \<noteq> Inl ZeroDivisionError \<longrightarrow>
         analyze_gsr find_peaks gsr_data 100 \<noteq> Inl ZeroDivisionError) \<and>
      (\<forall>scr_peaks at_peaks.
         find_peaks (map snd gsr_data) 0.1 100 = Inr scr_peaks \<and>
         series_getitem gsr_data scr_peaks = Inr at_peaks \<longrightarrow>
         (\<exists>scr_amplitude. analyze_gsr find_peaks gsr_data 100 =
            Inr (scr_amplitude, real (length scr_peaks) / (real (length gsr_data) / 100)))))"
proof -
  have empty: "analyze_gsr find_peaks [] sampling_rate = Inr (0, 0)"
    by (simp add: analyze_gsr_def)
  have rest: "real (length gsr_data) / real_of_int 100 \<noteq> 0 \<and>
      (find_peaks (map snd gsr_data) 0.1 100 \<noteq> Inl ZeroDivisionError \<longrightarrow>
         analyze_gsr find_peaks gsr_data 100 \<noteq> Inl ZeroDivisionError) \<and>
      (\<forall>scr_peaks at_peaks.
         find_peaks (map snd gsr_data) 0.1 100 = Inr scr_peaks \<and>
         series_getitem gsr_data scr_peaks = Inr at_peaks \<longrightarrow>
         (\<exists>scr_amplitude. analyze_gsr find_peaks gsr_data 100 =
            Inr (scr_amplitude, real (length scr_peaks) / (real (length gsr_data) / 100))))"
    if ne: "gsr_data \<noteq> []"
  proof -
    from ne have d: "real (length gsr_data) / real_of_int 100 \<noteq> 0" by simp
    have dur: "truediv (real (length gsr_data)) 100 = Inr (real (length gsr_data) / 100)"
      using ne by (simp add: truediv_def)
    have freq: "truediv (real n) (real (length gsr_data) / 100) = Inr (real n / (real (length gsr_data) / 100))" for n
      using ne by (simp add: truediv_def)
    have nz: "analyze_gsr find_peaks gsr_data 100 \<noteq> Inl ZeroDivisionError"
      if "find_peaks (map snd gsr_data) 0.1 100 \<noteq> Inl ZeroDivisionError"
    proof (cases "find_peaks (map snd gsr_data) 0.1 100")
      case (Inl e)
      with that ne show ?thesis by (simp add: analyze_gsr_def)
    next
      case peaks: (Inr scr_peaks)
      show ?thesis
      proof (cases "series_getitem gsr_data scr_peaks")
        case (Inl e)
        with series_getitem_not_zdiv [of gsr_data scr_peaks] peaks ne show ?thesis
          by (simp add: analyze_gsr_def)
      next
        case (Inr at_peaks)
        with peaks ne show ?thesis by (simp add: analyze_gsr_def dur freq Let_def)
      qed
    qed
    have ok: "\<exists>scr_amplitude. analyze_gsr find_peaks gsr_data 100 =
            Inr (scr_amplitude, real (length scr_peaks) / (real (length gsr_data) / 100))"
      if "find_peaks (map snd gsr_data) 0.1 100 = Inr scr_peaks"
         "series_getitem gsr_data scr_peaks = Inr at_peaks" for scr_peaks at_peaks
      using that ne by (simp add: analyze_gsr_def dur freq Let_def)
    from d nz ok show ?thesis by blast
  qed
  from empty rest show ?thesis by blast
qed

text \<open>C5 at a segment of length one.\<close>

theorem analyze_gsr_no_division_by_zero_witness:
  "analyze_gsr scipy_find_peaks [] 100 = Inr (0, 0) \<and>
   analyze_gsr scipy_find_peaks [(7, 0.2)] 100 = Inr (0, 0)"
  using analyze_gsr_no_division_by_zero [of scipy_find_peaks 100 "[(7, 0.2)]"]
  by (simp add: analyze_gsr_def truediv_def scipy_find_peaks_def local_maxima_from.simps select_by_peak_distance_def series_getitem_def)


section \<open>The segment pipeline\<close>

text \<open>
  C8. When the PPG segment of a window yields fewer than two intervals between rising
  edges, the PPG features are undefined and the record of the window carries the
  fusion of the default PPG label "Neutral/Calm" with the GSR label.
\<close>

theorem few_intervals_default_label:
  "process_chunk find_peaks df chunk = Inr r \<Longrightarrow>
   slice df (timestamp0 r) (timestamp1 r) = Inr segment \<Longrightarrow>
   length (ppg_rr_intervals (map ppg_signal segment)) < 2 \<Longrightarrow>
   ppg_features (map ppg_signal segment) = None \<and>
   (\<exists>gsr_emotion.
      gsr_emotion_of find_peaks (map (\<lambda>s. (label s, gsr_signal s)) segment) = Inr gsr_emotion \<and>
      emotion r = combine_emotions ''Neutral/Calm'' gsr_emotion)"
  by (auto simp: process_chunk_def and_then_def ppg_features_def ppg_emotion_of_def split: sum.splits)

text \<open>C8 at a window of three rising samples, which yield one interval only.\<close>

theorem few_intervals_default_label_witness:
  "process_chunk scipy_find_peaks
     [\<lparr>label = 0, time_seconds = 0, ppg_signal = Some 1, gsr_signal = None\<rparr>,
      \<lparr>label = 1, time_seconds = 0, ppg_signal = Some 2, gsr_signal = None\<rparr>,
      \<lparr>label = 2, time_seconds = 0, ppg_signal = Some 3, gsr_signal = None\<rparr>]
     (JObj [(''timestamp'', JArr [JNum 0, JNum 5]), (''text'', JStr ''a'')])
   = Inr \<lparr>timestamp0 = JNum 0, timestamp1 = JNum 5, text_of = JStr ''a'', emotion = ''Neutral/Calm''\<rparr> \<and>
   ppg_rr_intervals [Some 1, Some 2, Some 3] = [1] \<and>
   ppg_features [Some 1, Some 2, Some 3] = None"
proof -
  let ?df = "[\<lparr>label = 0, time_seconds = 0, ppg_signal = Some 1, gsr_signal = None\<rparr>,
      \<lparr>label = 1, time_seconds = 0, ppg_signal = Some 2, gsr_signal = None\<rparr>,
      \<lparr>label = 2, time_seconds = 0, ppg_signal = Some (3::real), gsr_signal = None\<rparr>]"
  let ?r = "\<lparr>timestamp0 = JNum 0, timestamp1 = JNum 5, text_of = JStr ''a'', emotion = ''Neutral/Calm''\<rparr>"
  have rr: "ppg_rr_intervals [Some 1, Some 2, Some 3] = [1]"
    by (simp add: ppg_rr_intervals_def where_positive_def upt_rec)
  have sl: "slice ?df (JNum 0) (JNum 5) = Inr ?df"
    by (simp add: slice_def)
  have pc: "process_chunk scipy_find_peaks ?df
     (JObj [(''timestamp'', JArr [JNum 0, JNum 5]), (''text'', JStr ''a'')]) = Inr ?r"
    by (simp add: process_chunk_def slice_def rr gsr_emotion_of_def isnull_all_def ppg_emotion_of_def
        ppg_features_def combine_emotions_def)
  from few_intervals_default_label [of scipy_find_peaks ?df _ ?r ?df] pc sl rr
  show ?thesis by simp
qed


lemma process_chunk_fields:
  "process_chunk find_peaks df chunk = Inr r \<Longrightarrow>
   and_then (getitem_key chunk ''timestamp'') (\<lambda>ts. getitem_idx ts 0) = Inr (timestamp0 r) \<and>
   and_then (getitem_key chunk ''timestamp'') (\<lambda>ts. getitem_idx ts 1) = Inr (timestamp1 r) \<and>
   getitem_key chunk ''text'' = Inr (text_of r)"
  by (auto simp: process_chunk_def and_then_def split: sum.splits)

section \<open>The endpoint\<close>

lemma convert_time_to_seconds_returns: "\<exists>r. convert_time_to_seconds v = Inr r"
proof (cases "convert_time_to_seconds_try v")
  case (Inl e)
  with try_Inl [of v e] show ?thesis by (auto simp: convert_time_to_seconds_def)
next
  case (Inr n)
  then show ?thesis by (simp add: convert_time_to_seconds_def)
qed

lemma traverse_Inr: "traverse f xs = Inr ys \<longleftrightarrow> list_all2 (\<lambda>x y. f x = Inr y) xs ys"
proof (induction xs arbitrary: ys)
  case Nil
  then show ?case by auto
next
  case (Cons x xs)
  show ?case
  proof (cases "f x")
    case (Inl e)
    then show ?thesis by (auto simp: list_all2_Cons1)
  next
    case fx: (Inr y)
    show ?thesis
    proof (cases "traverse f xs")
      case (Inl e)
      with Cons.IH fx show ?thesis by (auto simp: list_all2_Cons1)
    next
      case (Inr zs)
      with Cons.IH fx show ?thesis by (auto simp: list_all2_Cons1)
    qed
  qed
qed

lemma traverse_returns:
  "(\<And>x. x \<in> set xs \<Longrightarrow> \<exists>y. f x = Inr y) \<Longrightarrow> \<exists>ys. traverse f xs = Inr ys"
proof (induction xs)
  case Nil
  then show ?case by simp
next
  case (Cons x xs)
  then obtain y ys where "f x = Inr y" "traverse f xs = Inr ys" by (meson list.set_intros)
  then show ?case by simp
qed

lemma load_frame_returns: "\<exists>df. load_frame t = Inr df"
proof -
  obtain times where "traverse convert_time_to_seconds (time_column t) = Inr times"
    using traverse_returns [of "time_column t" convert_time_to_seconds]
      convert_time_to_seconds_returns by blast
  then show ?thesis by (simp add: load_frame_def)
qed















text \<open>
  When the table was read and the payload is JSON, the endpoint answers with results
  or with 500, never with another status; when the look-up of \<open>chunks\<close> raises, it
  answers 500.
\<close>

theorem decoded_payload_results_or_internal_failure:
  "((\<exists>results. analyze_sensors find_peaks (Some t) (Some data) = Ok results) \<or>
    analyze_sensors find_peaks (Some t) (Some data) = HTTPException 500) \<and>
   (getitem_key data ''chunks'' = Inl e \<longrightarrow>
      analyze_sensors find_peaks (Some t) (Some data) = HTTPException 500)"
proof -
  obtain df where df: "load_frame t = Inr df" using load_frame_returns by blast
  then show ?thesis by (auto simp: analyze_sensors_def split: sum.splits)
qed

text \<open>A payload that is a JSON list has no member \<open>chunks\<close>: the look-up raises TypeError.\<close>

theorem decoded_payload_results_or_internal_failure_witness:
  "getitem_key (JArr []) ''chunks'' = Inl TypeError \<and>
   analyze_sensors scipy_find_peaks
     (Some \<lparr>has_time = True, has_ppg = True, has_gsr = True, rows = []\<rparr>) (Some (JArr []))
   = HTTPException 500"
  using decoded_payload_results_or_internal_failure
    [of scipy_find_peaks "\<lparr>has_time = True, has_ppg = True, has_gsr = True, rows = []\<rparr>" "JArr []" TypeError]
  by simp




text \<open>
  Whenever the endpoint answers with results, they mirror the windows: one record
  for each window, in the order of the windows, with the window's two bounds and its
  text.
\<close>

theorem results_mirror_windows:
  assumes "analyze_sensors find_peaks file chunks_json = Ok results"
  shows "\<exists>data chunks. chunks_json = Some data \<and>
      and_then (getitem_key data ''chunks'') iterate = Inr chunks \<and>
      list_all2 (\<lambda>chunk r.
          and_then (getitem_key chunk ''timestamp'') (\<lambda>ts. getitem_idx ts 0) = Inr (timestamp0 r) \<and>
          and_then (getitem_key chunk ''timestamp'') (\<lambda>ts. getitem_idx ts 1) = Inr (timestamp1 r) \<and>
          getitem_key chunk ''text'' = Inr (text_of r)) chunks results"
proof -
  from assms obtain t where t: "file = Some t"
    by (cases "file") (auto simp: analyze_sensors_def)
  obtain df where df: "load_frame t = Inr df" using load_frame_returns by blast
  from assms t df obtain data where data: "chunks_json = Some data"
    by (cases chunks_json) (auto simp: analyze_sensors_def)
  from assms t df data obtain chunks where
    it: "and_then (getitem_key data ''chunks'') iterate = Inr chunks" and
    tr: "traverse (process_chunk find_peaks df) chunks = Inr results"
    by (auto simp: analyze_sensors_def and_then_def split: sum.splits)
  from tr have "list_all2 (\<lambda>c r. process_chunk find_peaks df c = Inr r) chunks results"
    by (simp add: traverse_Inr)
  then have "list_all2 (\<lambda>chunk r.
          and_then (getitem_key chunk ''timestamp'') (\<lambda>ts. getitem_idx ts 0) = Inr (timestamp0 r) \<and>
          and_then (getitem_key chunk ''timestamp'') (\<lambda>ts. getitem_idx ts 1) = Inr (timestamp1 r) \<and>
          getitem_key chunk ''text'' = Inr (text_of r)) chunks results"
    by (rule list_all2_mono) (rule process_chunk_fields)
  with data it show ?thesis by blast
qed

text \<open>The results of one window over an empty table.\<close>

theorem results_mirror_windows_witness:
  "analyze_sensors scipy_find_peaks
     (Some \<lparr>has_time = True, has_ppg = True, has_gsr = True, rows = []\<rparr>)
     (Some (JObj [(''chunks'', JArr [JObj [(''timestamp'', JArr [JNum 2, JNum 3]), (''text'', JStr ''b'')]])]))
   = Ok [\<lparr>timestamp0 = JNum 2, timestamp1 = JNum 3, text_of = JStr ''b'', emotion = ''Neutral/Calm''\<rparr>] \<and>
   (\<exists>data chunks.
      Some (JObj [(''chunks'', JArr [JObj [(''timestamp'', JArr [JNum 2, JNum 3]), (''text'', JStr ''b'')]])]) = Some data \<and>
      and_then (getitem_key data ''chunks'') iterate = Inr chunks \<and>
      list_all2 (\<lambda>chunk r.
          and_then (getitem_key chunk ''timestamp'') (\<lambda>ts. getitem_idx ts 0) = Inr (timestamp0 r) \<and>
          and_then (getitem_key chunk ''timestamp'') (\<lambda>ts. getitem_idx ts 1) = Inr (timestamp1 r) \<and>
          getitem_key chunk ''text'' = Inr (text_of r)) chunks
        [\<lparr>timestamp0 = JNum 2, timestamp1 = JNum 3, text_of = JStr ''b'', emotion = ''Neutral/Calm''\<rparr>])"
proof -
  have ok: "analyze_sensors scipy_find_peaks
     (Some \<lparr>has_time = True, has_ppg = True, has_gsr = True, rows = []\<rparr>)
     (Some (JObj [(''chunks'', JArr [JObj [(''timestamp'', JArr [JNum 2, JNum 3]), (''text'', JStr ''b'')]])]))
   = Ok [\<lparr>timestamp0 = JNum 2, timestamp1 = JNum 3, text_of = JStr ''b'', emotion = ''Neutral/Calm''\<rparr>]"
    by (simp add: analyze_sensors_def load_frame_def time_column_def List.map_filter_def
        process_chunk_def slice_def gsr_emotion_of_def isnull_all_def
        ppg_emotion_of_def ppg_features_def combine_emotions_def)
  from results_mirror_windows [OF ok] ok show ?thesis by blast
qed

section \<open>Where the program departs from the specification\<close>

lemmas frame_ev = load_frame_def time_column_def convert_time_to_seconds_def
  convert_time_to_seconds_try_def str_split_def py_int_short strip_def is_space_def decimal_def
  is_digit_def digit_val_def List.map_filter_def keep_timed_def

lemma frame6: "load_frame \<lparr>has_time = True, has_ppg = False, has_gsr = True, rows =
       [\<lparr>time_cell = PyStr ''0:00.000'', ppg_cell = None, gsr_cell = Some 0\<rparr>,
        \<lparr>time_cell = PyStr ''0:00.001'', ppg_cell = None, gsr_cell = Some 1\<rparr>,
        \<lparr>time_cell = PyStr ''0:00.002'', ppg_cell = None, gsr_cell = Some 0\<rparr>,
        \<lparr>time_cell = PyStr ''0:01.000'', ppg_cell = None, gsr_cell = Some 0\<rparr>,
        \<lparr>time_cell = PyStr ''0:01.001'', ppg_cell = None, gsr_cell = Some 1\<rparr>,
        \<lparr>time_cell = PyStr ''0:01.002'', ppg_cell = None, gsr_cell = Some 0\<rparr>]\<rparr>
   = Inr [\<lparr>label = 0, time_seconds = 0, ppg_signal = None, gsr_signal = Some 0\<rparr>,
          \<lparr>label = 1, time_seconds = 0, ppg_signal = None, gsr_signal = Some 1\<rparr>,
          \<lparr>label = 2, time_seconds = 0, ppg_signal = None, gsr_signal = Some 0\<rparr>,
          \<lparr>label = 3, time_seconds = 1, ppg_signal = None, gsr_signal = Some 0\<rparr>,
          \<lparr>label = 4, time_seconds = 1, ppg_signal = None, gsr_signal = Some 1\<rparr>,
          \<lparr>label = 5, time_seconds = 1, ppg_signal = None, gsr_signal = Some 0\<rparr>]"
  by (simp add: frame_ev upt_rec)

lemma peaks3: "scipy_find_peaks [0, 1, 0] (1 / 10) 100 = Inr [1]"
  by (simp add: scipy_find_peaks_def local_maxima_from.simps plateau_end.simps
      select_by_peak_distance_def suppress_def upt_rec)

lemmas chunk_ev = process_chunk_def slice_def gsr_emotion_of_def isnull_all_def dropna_def
  List.map_filter_def analyze_gsr_def series_getitem_def truediv_def mean_def
  ppg_emotion_of_def ppg_features_def ppg_rr_intervals_def where_positive_def
  classify_gsr_emotion_def combine_emotions_def

text \<open>
  C7 fails on the program. The table has six rows, three in second 0 and three in
  second 1, and the GSR values 0, 1, 0 in each second. For the window [0, 0] the
  segment has the labels 0, 1, 2: the peak at position 1 is found under the label 1
  and the window gets its record. For the window [1, 1] the segment has the labels
  3, 4, 5: the same peak at position 1 is looked up as the label 1, which the segment
  does not have; KeyError ends the request with status 500 and no record is produced
  for the well-formed window.
\<close>

theorem gsr_peak_lookup_by_label_fails:
  "analyze_sensors scipy_find_peaks
     (Some \<lparr>has_time = True, has_ppg = False, has_gsr = True, rows =
       [\<lparr>time_cell = PyStr ''0:00.000'', ppg_cell = None, gsr_cell = Some 0\<rparr>,
        \<lparr>time_cell = PyStr ''0:00.001'', ppg_cell = None, gsr_cell = Some 1\<rparr>,
        \<lparr>time_cell = PyStr ''0:00.002'', ppg_cell = None, gsr_cell = Some 0\<rparr>,
        \<lparr>time_cell = PyStr ''0:01.000'', ppg_cell = None, gsr_cell = Some 0\<rparr>,
        \<lparr>time_cell = PyStr ''0:01.001'', ppg_cell = None, gsr_cell = Some 1\<rparr>,
        \<lparr>time_cell = PyStr ''0:01.002'', ppg_cell = None, gsr_cell = Some 0\<rparr>]\<rparr>)
     (Some (JObj [(''chunks'', JArr [JObj [(''timestamp'', JArr [JNum 0, JNum 0]), (''text'', JStr ''a'')]])]))
   = Ok [\<lparr>timestamp0 = JNum 0, timestamp1 = JNum 0, text_of = JStr ''a'', emotion = ''Happy/Angry''\<rparr>] \<and>
   analyze_sensors scipy_find_peaks
     (Some \<lparr>has_time = True, has_ppg = False, has_gsr = True, rows =
       [\<lparr>time_cell = PyStr ''0:00.000'', ppg_cell = None, gsr_cell = Some 0\<rparr>,
        \<lparr>time_cell = PyStr ''0:00.001'', ppg_cell = None, gsr_cell = Some 1\<rparr>,
        \<lparr>time_cell = PyStr ''0:00.002'', ppg_cell = None, gsr_cell = Some 0\<rparr>,
        \<lparr>time_cell = PyStr ''0:01.000'', ppg_cell = None, gsr_cell = Some 0\<rparr>,
        \<lparr>time_cell = PyStr ''0:01.001'', ppg_cell = None, gsr_cell = Some 1\<rparr>,
        \<lparr>time_cell = PyStr ''0:01.002'', ppg_cell = None, gsr_cell = Some 0\<rparr>]\<rparr>)
     (Some (JObj [(''chunks'', JArr [JObj [(''timestamp'', JArr [JNum 1, JNum 1]), (''text'', JStr ''a'')]])]))
   = HTTPException 500"
  by (simp add: analyze_sensors_def frame6 chunk_ev peaks3)

text \<open>
  C3 fails on the program. The PPG segment 1, NaN, 2, NaN, 3, NaN, 4, NaN, 5 is not
  wholly absent. The program takes the differences of the segment as it is: each has
  a NaN operand, no rising edge is found, and the label is the default
  "Neutral/Calm". On the present values 1, 2, 3, 4, 5 alone the analyzer finds four
  rising edges and three equal intervals, and the label is "Sad".
\<close>

theorem ppg_segment_keeps_missing_values:
  "ppg_emotion_of [Some 1, None, Some 2, None, Some 3, None, Some 4, None, Some 5] = ''Neutral/Calm'' \<and>
   spec_present_values [Some 1, None, Some 2, None, Some 3, None, Some 4, None, Some 5]
     = [Some 1, Some 2, Some 3, Some 4, Some 5] \<and>
   ppg_emotion_of (spec_present_values [Some 1, None, Some 2, None, Some 3, None, Some 4, None, Some 5]) = ''Sad''"
  by (simp add: spec_present_values_def ppg_emotion_of_def ppg_features_def isnull_all_def
      ppg_rr_intervals_def where_positive_def upt_rec np_std_def mean_def classify_ppg_emotion_def)


end
